theory Spec2Isabelle
  imports Main "HOL-Library.Word" "HOL-Library.Sublist"
begin

section \<open>Data model\<close>

text \<open>
  The Go program keeps one in-memory map from keys to versioned entries, a static peer
  list, a leader flag and the three quorum parameters as package-level variables.
  \<^verbatim>\<open>
  type Entry struct {
      Value     string `json:"value"`
      Timestamp int64  `json:"timestamp"`
  }
  var (
      svc      = Store{data: make(map[string]Entry)}
      peers    []string
      isLeader bool
      N, R, W  int
  )
  \<close>
  Timestamps are 64-bit two's complement words and are only ever compared (signed),
  parsed and printed. \<open>N\<close>, \<open>R\<close> and \<open>W\<close> are Go \<open>int\<close>s; they are modelled as
  integers, the only arithmetic on that type being the acknowledgment counter, which
  is bounded by the length of the peer list.
\<close>

type_synonym int64 = "64 word"

record Entry =
  Value :: string
  Timestamp :: int64

type_synonym Store = "string \<rightharpoonup> Entry"

record Globals =
  svc :: Store
  peers :: "string list"
  isLeader :: bool
  N :: int
  R :: int
  W :: int

text \<open>The zero value \<^verbatim>\<open>Entry{}\<close> of the struct.\<close>

definition zeroEntry :: Entry where
  "zeroEntry = \<lparr>Value = [], Timestamp = 0\<rparr>"

section \<open>Library functions the handlers call\<close>

subsection \<open>Query parameters\<close>

text \<open>
  \<^verbatim>\<open>url.Values\<close> is a \<^verbatim>\<open>map[string][]string\<close>; \<^verbatim>\<open>Get\<close> returns the first value
  of a key and the empty string when the key has none.
\<close>

type_synonym Values = "string \<Rightarrow> string list"

definition Get :: "Values \<Rightarrow> string \<Rightarrow> string" where
  "Get v key = (case v key of [] \<Rightarrow> [] | x # _ \<Rightarrow> x)"

subsection \<open>Parsing and printing decimal integers\<close>

text \<open>
  \<^verbatim>\<open>strconv.ParseUint(s, 10, 64)\<close>: every byte must be a decimal digit (a syntax
  error otherwise, also on the empty string), and the value must fit 64 bits (a range
  error as soon as the running value leaves the range).
\<close>

datatype NumError = ErrSyntax | ErrRange

definition isDigit :: "char \<Rightarrow> bool" where
  "isDigit c = (48 \<le> (of_char c :: nat) \<and> (of_char c :: nat) \<le> 57)"

definition digitVal :: "char \<Rightarrow> nat" where
  "digitVal c = of_char c - 48"

fun parseDigits :: "nat \<Rightarrow> string \<Rightarrow> NumError + nat" where
  "parseDigits n [] = Inr n"
| "parseDigits n (c # cs) =
     (if isDigit c then
        (let n1 = n * 10 + digitVal c
         in if n1 > 2 ^ 64 - 1 then Inl ErrRange else parseDigits n1 cs)
      else Inl ErrSyntax)"

definition ParseUint :: "string \<Rightarrow> NumError + nat" where
  "ParseUint s = (if s = [] then Inl ErrSyntax else parseDigits 0 s)"

text \<open>
  \<^verbatim>\<open>strconv.ParseInt(s, 10, 64)\<close>: an optional sign, then \<^verbatim>\<open>ParseUint\<close>; a range
  error of \<^verbatim>\<open>ParseUint\<close> leaves the maximal value, which the cutoff test turns into a
  range error again. The result is the integer value, within \<open>- 2 ^ 63 .. 2 ^ 63 - 1\<close>.
\<close>

definition ParseInt :: "string \<Rightarrow> NumError + int" where
  "ParseInt s =
     (if s = [] then Inl ErrSyntax
      else
        let neg = (hd s = CHR ''-'');
            s' = (if hd s = CHR ''+'' \<or> hd s = CHR ''-'' then tl s else s)
        in case ParseUint s' of
             Inl ErrSyntax \<Rightarrow> Inl ErrSyntax
           | Inl ErrRange \<Rightarrow> Inl ErrRange
           | Inr un \<Rightarrow>
               if \<not> neg \<and> un \<ge> 2 ^ 63 then Inl ErrRange
               else if neg \<and> un > 2 ^ 63 then Inl ErrRange
               else Inr (if neg then - int un else int un))"

text \<open>\<^verbatim>\<open>strconv.Atoi\<close> is \<^verbatim>\<open>ParseInt(s, 10, 0)\<close> with the 64-bit \<^verbatim>\<open>int\<close>.\<close>

definition Atoi :: "string \<Rightarrow> NumError + int" where
  "Atoi s = ParseInt s"

text \<open>
  The verb \<^verbatim>\<open>%d\<close> of \<^verbatim>\<open>fmt\<close>: decimal digits, read from the digit table, with a
  minus sign when negative.
\<close>

definition digitChar :: "nat \<Rightarrow> char" where
  "digitChar d = ''0123456789'' ! d"

fun digits :: "nat \<Rightarrow> string" where
  "digits n = (if n < 10 then [digitChar n] else digits (n div 10) @ [digitChar (n mod 10)])"

declare digits.simps [simp del]

definition FormatInt :: "int \<Rightarrow> string" where
  "FormatInt i = (if i < 0 then CHR ''-'' # digits (nat (- i)) else digits (nat i))"

section \<open>Responses and the outside world\<close>

text \<open>
  What a handler writes to its \<^verbatim>\<open>http.ResponseWriter\<close>: a status code and a body. A
  body produced by \<^verbatim>\<open>json.Marshal(e)\<close> is kept as the entry that was marshalled.
\<close>

datatype Body = NoBody | Text string | JsonEntry Entry

datatype Response = Response nat Body

definition httpError :: "string \<Rightarrow> nat \<Rightarrow> Response" where
  "httpError msg code = Response code (Text (msg @ [CHR 0x0A]))"

definition httpNotFound :: Response where
  "httpNotFound = httpError ''404 page not found'' 404"

text \<open>
  The network and the clock are parameters. An outbound \<^verbatim>\<open>http.Post\<close> or
  \<^verbatim>\<open>http.Get\<close> either fails at the transport level or returns a status code; for a
  \<^verbatim>\<open>Get\<close> the reply also carries the entry that \<^verbatim>\<open>json.NewDecoder(resp.Body).Decode(&e)\<close>
  leaves in \<^verbatim>\<open>e\<close> (its error is ignored by the caller). Calls are told apart by the
  position of the peer in the peer list, so that the same address listed twice may
  answer differently. \<open>arrival\<close> is the scheduler of a read: it maps the results of
  the read tasks, in the order the tasks were started, to the order in which they are
  received from the channel.
\<close>

datatype PostResult = PostErr | PostStatus nat

datatype GetResult = GetErr | GetResp nat Entry

type_synonym result = "Entry \<times> bool"

record World =
  UnixNano :: int64
  Post :: "nat \<Rightarrow> string \<Rightarrow> PostResult"
  HttpGet :: "nat \<Rightarrow> string \<Rightarrow> GetResult"
  arrival :: "result list \<Rightarrow> result list"

section \<open>Reconfiguration\<close>

text \<open>
  \<^verbatim>\<open>
  func configHandler(w http.ResponseWriter, r *http.Request) {
      if v := r.URL.Query().Get("N"); v != "" {
          if i, err := strconv.Atoi(v); err == nil { N = i }
      }
      ... the same for "W" and for "R" ...
      fmt.Fprintf(w, "reconfigured to N=%d W=%d R=%d\n", N, W, R)
  }
  \<close>
\<close>

definition configHandler :: "Values \<Rightarrow> Globals \<Rightarrow> Response \<times> Globals" where
  "configHandler q g =
     (let g1 = (let v = Get q ''N'' in
                if v \<noteq> [] then (case Atoi v of Inr i \<Rightarrow> g\<lparr>N := i\<rparr> | Inl err \<Rightarrow> g) else g);
          g2 = (let v = Get q ''W'' in
                if v \<noteq> [] then (case Atoi v of Inr i \<Rightarrow> g1\<lparr>W := i\<rparr> | Inl err \<Rightarrow> g1) else g1);
          g3 = (let v = Get q ''R'' in
                if v \<noteq> [] then (case Atoi v of Inr i \<Rightarrow> g2\<lparr>R := i\<rparr> | Inl err \<Rightarrow> g2) else g2)
      in (Response 200 (Text (''reconfigured to N='' @ FormatInt (N g3) @ '' W='' @
            FormatInt (W g3) @ '' R='' @ FormatInt (R g3) @ [CHR 0x0A])), g3))"

section \<open>Inbound replication\<close>

text \<open>
  The critical section of \<^verbatim>\<open>replicateHandler\<close>:
  \<^verbatim>\<open>
  svc.Lock()
  if e, ok := svc.data[key]; !ok || ts > e.Timestamp {
      svc.data[key] = Entry{Value: val, Timestamp: ts}
  }
  svc.Unlock()
  \<close>
\<close>

definition applyIfNewer :: "string \<Rightarrow> Entry \<Rightarrow> Store \<Rightarrow> Store" where
  "applyIfNewer key cand d =
     (case d key of
        None \<Rightarrow> d(key \<mapsto> cand)
      | Some e \<Rightarrow> if sint (Timestamp cand) > sint (Timestamp e) then d(key \<mapsto> cand) else d)"

text \<open>
  \<^verbatim>\<open>
  func replicateHandler(w http.ResponseWriter, r *http.Request) {
      key := r.URL.Query().Get("key")
      val := r.URL.Query().Get("value")
      tsStr := r.URL.Query().Get("timestamp")
      ts, err := strconv.ParseInt(tsStr, 10, 64)
      if key == "" || err != nil {
          http.Error(w, "invalid replicate args", http.StatusBadRequest)
          return
      }
      ... the critical section ...
      w.WriteHeader(http.StatusOK)
  }
  \<close>
\<close>

definition replicateHandler :: "Values \<Rightarrow> Globals \<Rightarrow> Response \<times> Globals" where
  "replicateHandler q g =
     (let key = Get q ''key'';
          val = Get q ''value'';
          tsStr = Get q ''timestamp''
      in case ParseInt tsStr of
           Inl err \<Rightarrow> (httpError ''invalid replicate args'' 400, g)
         | Inr ts \<Rightarrow>
             if key = [] then (httpError ''invalid replicate args'' 400, g)
             else (Response 200 NoBody,
                   g\<lparr>svc := applyIfNewer key \<lparr>Value = val, Timestamp = word_of_int ts\<rparr> (svc g)\<rparr>))"

section \<open>Client writes\<close>

text \<open>
  \<^verbatim>\<open>
  func replicateTo(peer, key, val string, ts int64) bool {
      url := fmt.Sprintf("http://%s/replicate?key=%s&value=%s&timestamp=%d", peer, key, val, ts)
      resp, err := http.Post(url, "", nil)
      if err != nil { return false }
      resp.Body.Close()
      return resp.StatusCode == http.StatusOK
  }
  \<close>
\<close>

definition replicateURL :: "string \<Rightarrow> string \<Rightarrow> string \<Rightarrow> int64 \<Rightarrow> string" where
  "replicateURL peer key val ts =
     ''http://'' @ peer @ ''/replicate?key='' @ key @ ''&value='' @ val @
     ''&timestamp='' @ FormatInt (sint ts)"

definition replicateTo :: "(string \<Rightarrow> PostResult) \<Rightarrow> string \<Rightarrow> string \<Rightarrow> string \<Rightarrow> int64 \<Rightarrow> bool" where
  "replicateTo post peer key val ts =
     (case post (replicateURL peer key val ts) of
        PostErr \<Rightarrow> False
      | PostStatus code \<Rightarrow> code = 200)"

text \<open>
  What a write handler does: its response, the globals afterwards, the replicate
  requests it issued and saw complete before returning (\<open>awaited\<close>, in peer order), and
  the ones it handed to goroutines nobody waits for (\<open>detached\<close>).
\<close>

record Outcome =
  response :: Response
  after :: Globals
  awaited :: "string list"
  detached :: "string list"

text \<open>
  The fan-out that contacts every peer. In \<^verbatim>\<open>putHandler\<close> the calls run in goroutines
  that increment \<^verbatim>\<open>acks\<close> under a mutex and are joined by \<^verbatim>\<open>wg.Wait()\<close>; in the
  leaderless branch of \<^verbatim>\<open>setHandler\<close> they run one after the other. Either way the
  counter ends at its start value plus the number of calls that returned true.
  \<^verbatim>\<open>
  for _, peer := range peers {
      if replicateTo(peer, key, val, ts) { acks++ }
  }
  \<close>
\<close>

fun fanoutAll ::
  "(nat \<Rightarrow> string \<Rightarrow> PostResult) \<Rightarrow> string \<Rightarrow> string \<Rightarrow> int64 \<Rightarrow> nat \<Rightarrow> string list \<Rightarrow> int
     \<Rightarrow> int \<times> string list" where
  "fanoutAll post key val ts i [] acks = (acks, [])"
| "fanoutAll post key val ts i (p # ps) acks =
     (let acks1 = (if replicateTo (post i) p key val ts then acks + 1 else acks);
          (a, tr) = fanoutAll post key val ts (Suc i) ps acks1
      in (a, replicateURL p key val ts # tr))"

text \<open>
  The leader branch of \<^verbatim>\<open>setHandler\<close> for \<^verbatim>\<open>W != 1\<close>:
  \<^verbatim>\<open>
  for _, peer := range peers {
      time.Sleep(LeaderDelayPerFollower)
      if replicateTo(peer, key, val, ts) { acks++ }
      if acks >= W { break }
  }
  \<close>
\<close>

fun fanoutUntil ::
  "int \<Rightarrow> (nat \<Rightarrow> string \<Rightarrow> PostResult) \<Rightarrow> string \<Rightarrow> string \<Rightarrow> int64 \<Rightarrow> nat \<Rightarrow> string list \<Rightarrow> int
     \<Rightarrow> int \<times> string list" where
  "fanoutUntil w post key val ts i [] acks = (acks, [])"
| "fanoutUntil w post key val ts i (p # ps) acks =
     (let acks1 = (if replicateTo (post i) p key val ts then acks + 1 else acks)
      in if acks1 \<ge> w then (acks1, [replicateURL p key val ts])
         else (let (a, tr) = fanoutUntil w post key val ts (Suc i) ps acks1
               in (a, replicateURL p key val ts # tr)))"

text \<open>
  \<^verbatim>\<open>putHandler\<close> of \<^verbatim>\<open>main.go\<close>: only the leader coordinates.
  \<^verbatim>\<open>
  if key == "" { http.Error(w, "key required", http.StatusBadRequest); return }
  ts := time.Now().UnixNano()
  if isLeader {
      svc.Lock(); svc.data[key] = Entry{Value: val, Timestamp: ts}; svc.Unlock()
      if W == 1 {
          for _, p := range peers { go replicateTo(p, key, val, ts) }
          w.WriteHeader(http.StatusOK); return
      }
      acks := 1
      ... one goroutine per peer, wg.Wait() ...
      if acks < W { http.Error(w, "write quorum not met", 500); return }
      w.WriteHeader(http.StatusOK); return
  }
  http.Error(w, "writes only allowed on leader", http.StatusBadRequest)
  \<close>
\<close>

definition putHandler :: "World \<Rightarrow> Values \<Rightarrow> Globals \<Rightarrow> Outcome" where
  "putHandler wd q g =
     (let key = Get q ''key'';
          val = Get q ''value''
      in if key = [] then
           \<lparr>response = httpError ''key required'' 400, after = g, awaited = [], detached = []\<rparr>
         else
           let ts = UnixNano wd in
           if isLeader g then
             (let g' = g\<lparr>svc := (svc g)(key \<mapsto> \<lparr>Value = val, Timestamp = ts\<rparr>)\<rparr> in
              if W g = 1 then
                \<lparr>response = Response 200 NoBody, after = g', awaited = [],
                 detached = map (\<lambda>p. replicateURL p key val ts) (peers g)\<rparr>
              else
                (let (acks, tr) = fanoutAll (Post wd) key val ts 0 (peers g) 1 in
                 if acks < W g then
                   \<lparr>response = httpError ''write quorum not met'' 500, after = g',
                    awaited = tr, detached = []\<rparr>
                 else
                   \<lparr>response = Response 200 NoBody, after = g', awaited = tr, detached = []\<rparr>))
           else
             \<lparr>response = httpError ''writes only allowed on leader'' 400, after = g,
              awaited = [], detached = []\<rparr>)"

text \<open>
  \<^verbatim>\<open>setHandler\<close> of the second server: the leader stops its sequential fan-out once
  \<^verbatim>\<open>W\<close> acknowledgments are in, and a node that is not the leader coordinates when
  \<^verbatim>\<open>W == N\<close>, contacting every peer. Success is \<^verbatim>\<open>201 Created\<close>.
  \<^verbatim>\<open>
  if isLeader {
      ... local write ...
      if W == 1 { ... one detached goroutine per peer ...; w.WriteHeader(201); return }
      acks := 1
      ... loop with break ...
      if acks < W { http.Error(w, "write quorum not met", 500); return }
      w.WriteHeader(http.StatusCreated); return
  }
  if !isLeader && W == N {
      ... local write ...
      acks := 1
      for _, peer := range peers { ...; if replicateTo(peer, key, val, ts) { acks++ } }
      if acks < W { http.Error(w, "write quorum not met", 500); return }
      w.WriteHeader(http.StatusCreated); return
  }
  http.Error(w, "writes only allowed on leader", http.StatusBadRequest)
  \<close>
\<close>

definition setHandler :: "World \<Rightarrow> Values \<Rightarrow> Globals \<Rightarrow> Outcome" where
  "setHandler wd q g =
     (let key = Get q ''key'';
          val = Get q ''value''
      in if key = [] then
           \<lparr>response = httpError ''key required'' 400, after = g, awaited = [], detached = []\<rparr>
         else
           let ts = UnixNano wd;
               g' = g\<lparr>svc := (svc g)(key \<mapsto> \<lparr>Value = val, Timestamp = ts\<rparr>)\<rparr>
           in
           if isLeader g then
             (if W g = 1 then
                \<lparr>response = Response 201 NoBody, after = g', awaited = [],
                 detached = map (\<lambda>p. replicateURL p key val ts) (peers g)\<rparr>
              else
                (let (acks, tr) = fanoutUntil (W g) (Post wd) key val ts 0 (peers g) 1 in
                 if acks < W g then
                   \<lparr>response = httpError ''write quorum not met'' 500, after = g',
                    awaited = tr, detached = []\<rparr>
                 else
                   \<lparr>response = Response 201 NoBody, after = g', awaited = tr, detached = []\<rparr>))
           else if \<not> isLeader g \<and> W g = N g then
             (let (acks, tr) = fanoutAll (Post wd) key val ts 0 (peers g) 1 in
              if acks < W g then
                \<lparr>response = httpError ''write quorum not met'' 500, after = g',
                 awaited = tr, detached = []\<rparr>
              else
                \<lparr>response = Response 201 NoBody, after = g', awaited = tr, detached = []\<rparr>)
           else
             \<lparr>response = httpError ''writes only allowed on leader'' 400, after = g,
              awaited = [], detached = []\<rparr>)"

section \<open>Client reads\<close>

text \<open>
  The results the read tasks send on the channel: the local lookup, and one per peer.
  \<^verbatim>\<open>
  e, ok := svc.data[key];  resCh <- result{e, ok}

  resp, err := http.Get(url)
  if err != nil { resCh <- result{Entry{}, false}; return }
  if resp.StatusCode != http.StatusOK { resCh <- result{Entry{}, false}; return }
  var e Entry
  json.NewDecoder(resp.Body).Decode(&e)
  resCh <- result{e, true}
  \<close>
\<close>

definition localResult :: "Store \<Rightarrow> string \<Rightarrow> result" where
  "localResult d key = (case d key of None \<Rightarrow> (zeroEntry, False) | Some e \<Rightarrow> (e, True))"

definition replicaURL :: "string \<Rightarrow> string \<Rightarrow> string" where
  "replicaURL peer key = ''http://'' @ peer @ ''/getReplica?key='' @ key"

definition peerResult :: "GetResult \<Rightarrow> result" where
  "peerResult r =
     (case r of
        GetErr \<Rightarrow> (zeroEntry, False)
      | GetResp code e \<Rightarrow> if code \<noteq> 200 then (zeroEntry, False) else (e, True))"

fun peerResults :: "(nat \<Rightarrow> string \<Rightarrow> GetResult) \<Rightarrow> string \<Rightarrow> nat \<Rightarrow> string list \<Rightarrow> result list" where
  "peerResults get key i [] = []"
| "peerResults get key i (p # ps) =
     peerResult (get i (replicaURL p key)) # peerResults get key (Suc i) ps"

text \<open>
  The collector loop over the channel:
  \<^verbatim>\<open>
  got := 0
  var best Entry
  for r2 := range resCh {
      if !r2.ok { continue }
      got++
      if r2.e.Timestamp > best.Timestamp { best = r2.e }
      if got >= R { break }
  }
  \<close>
\<close>

fun collect :: "int \<Rightarrow> result list \<Rightarrow> int \<Rightarrow> Entry \<Rightarrow> int \<times> Entry" where
  "collect r [] got best = (got, best)"
| "collect r ((e, ok) # rs) got best =
     (if \<not> ok then collect r rs got best
      else
        let got1 = got + 1;
            best1 = (if sint (Timestamp e) > sint (Timestamp best) then e else best)
        in if got1 \<ge> r then (got1, best1) else collect r rs got1 best1)"

text \<open>
  \<^verbatim>\<open>
  func getHandler(w http.ResponseWriter, r *http.Request) {
      key := r.URL.Query().Get("key")
      if key == "" { http.Error(w, "key required", http.StatusBadRequest); return }
      if R == 1 {
          e, ok := svc.data[key]
          if !ok { http.NotFound(w, r); return }
          bs, _ := json.Marshal(e); w.Write(bs); return
      }
      ... start the tasks, run the collector ...
      if got < 1 { http.NotFound(w, r); return }
      bs, _ := json.Marshal(best); w.Write(bs)
  }
  \<close>
\<close>

definition getHandler :: "World \<Rightarrow> Values \<Rightarrow> Globals \<Rightarrow> Response" where
  "getHandler wd q g =
     (let key = Get q ''key'' in
      if key = [] then httpError ''key required'' 400
      else if R g = 1 then
        (case svc g key of
           None \<Rightarrow> httpNotFound
         | Some e \<Rightarrow> Response 200 (JsonEntry e))
      else
        let results = localResult (svc g) key # peerResults (HttpGet wd) key 0 (peers g);
            (got, best) = collect (R g) (arrival wd results) 0 zeroEntry
        in if got < 1 then httpNotFound else Response 200 (JsonEntry best))"

section \<open>Concrete requests and nodes\<close>

text \<open>
  The query string \<^verbatim>\<open>k1=v1&k2=v2...\<close> as \<^verbatim>\<open>url.Values\<close>: every key maps to its
  values in the order they appear.
\<close>

definition query :: "(string \<times> string) list \<Rightarrow> Values" where
  "query kvs = (\<lambda>key. map snd (filter (\<lambda>kv. fst kv = key) kvs))"

text \<open>A node right after start-up with the default flags, and a leader of three.\<close>

definition node0 :: Globals where
  "node0 = \<lparr>svc = Map.empty, peers = [], isLeader = False, N = 1, R = 1, W = 1\<rparr>"

definition leader3 :: Globals where
  "leader3 = \<lparr>svc = Map.empty, peers = [''b:8000'', ''c:8000''], isLeader = True,
              N = 3, R = 1, W = 3\<rparr>"

text \<open>A world in which every peer answers every request with \<^verbatim>\<open>200 OK\<close>.\<close>

definition allUp :: "int64 \<Rightarrow> World" where
  "allUp t = \<lparr>UnixNano = t, Post = (\<lambda>i url. PostStatus 200),
              HttpGet = (\<lambda>i url. GetResp 404 zeroEntry), arrival = (\<lambda>rs. rs)\<rparr>"

section \<open>Acknowledgments\<close>

text \<open>
  The number of peers of the list whose replicate request is answered \<^verbatim>\<open>200\<close>, that is,
  for which \<^verbatim>\<open>replicateTo\<close> returns true; \<open>i\<close> is the position of the first peer.
\<close>

fun peerAcks ::
  "(nat \<Rightarrow> string \<Rightarrow> PostResult) \<Rightarrow> string \<Rightarrow> string \<Rightarrow> int64 \<Rightarrow> nat \<Rightarrow> string list \<Rightarrow> nat" where
  "peerAcks post key val ts i [] = 0"
| "peerAcks post key val ts i (p # ps) =
     (if replicateTo (post i) p key val ts then 1 else 0) + peerAcks post key val ts (Suc i) ps"

text \<open>
  The number of peers of the list that answer the replicate request for this key, value
  and timestamp with \<^verbatim>\<open>200\<close>, read off the network alone.
\<close>

fun peers200 ::
  "(nat \<Rightarrow> string \<Rightarrow> PostResult) \<Rightarrow> string \<Rightarrow> string \<Rightarrow> int64 \<Rightarrow> nat \<Rightarrow> string list \<Rightarrow> nat" where
  "peers200 post key val ts i [] = 0"
| "peers200 post key val ts i (p # ps) =
     (if post i (''http://'' @ p @ ''/replicate?key='' @ key @ ''&value='' @ val @
                 ''&timestamp='' @ FormatInt (sint ts)) = PostStatus 200
      then 1 else 0) + peers200 post key val ts (Suc i) ps"

section \<open>What a read collects\<close>

text \<open>
  The results of the read tasks of a request, in the order the scheduler lets them
  arrive on the channel.
\<close>

definition readArrivals :: "World \<Rightarrow> Values \<Rightarrow> Globals \<Rightarrow> result list" where
  "readArrivals wd q g =
     arrival wd (localResult (svc g) (Get q ''key'') #
                 peerResults (HttpGet wd) (Get q ''key'') 0 (peers g))"

text \<open>The entries of the first \<open>r\<close> successful results of a sequence of arrivals.\<close>

definition firstSuccesses :: "int \<Rightarrow> result list \<Rightarrow> Entry list" where
  "firstSuccesses r rs = take (nat r) (map fst (filter snd rs))"

text \<open>The update of \<^verbatim>\<open>best\<close> in the collector loop.\<close>

definition pickNewer :: "Entry \<Rightarrow> Entry \<Rightarrow> Entry" where
  "pickNewer best e = (if sint (Timestamp e) > sint (Timestamp best) then e else best)"

text \<open>
  A world for reads: the first peer holds an entry with timestamp 7, every other peer
  one with timestamp 9, and results arrive in the order the tasks were started.
\<close>

definition readWorld :: World where
  "readWorld = \<lparr>UnixNano = 0, Post = (\<lambda>i url. PostErr),
     HttpGet = (\<lambda>i url. if i = 0 then GetResp 200 \<lparr>Value = ''x'', Timestamp = 7\<rparr>
                          else GetResp 200 \<lparr>Value = ''y'', Timestamp = 9\<rparr>),
     arrival = (\<lambda>rs. rs)\<rparr>"

section \<open>Properties of the library functions\<close>

lemma parseDigits_range: "parseDigits n s = Inr m \<Longrightarrow> n < 2 ^ 64 \<Longrightarrow> m < 2 ^ 64"
  by (induction s arbitrary: n) (auto simp: Let_def split: if_splits)

lemma ParseInt_range: "ParseInt s = Inr i \<Longrightarrow> - (2 ^ 63) \<le> i \<and> i < 2 ^ 63"
  by (auto simp: ParseInt_def Let_def split: if_splits sum.splits NumError.splits)

lemma sint_ParseInt: "ParseInt s = Inr i \<Longrightarrow> sint (word_of_int i :: int64) = i"
  by (drule ParseInt_range) (simp add: sint_sbintrunc' signed_take_bit_int_eq_self)

lemmas eval_simps =
  query_def Get_def ParseInt_def ParseUint_def Atoi_def isDigit_def digitVal_def
  FormatInt_def digits.simps digitChar_def
  httpError_def httpNotFound_def zeroEntry_def node0_def leader3_def allUp_def

section \<open>Inbound replication: validation and last-write-wins\<close>

lemma applyIfNewer_commute:
  "sint (Timestamp a) < sint (Timestamp b) \<Longrightarrow>
   applyIfNewer k b (applyIfNewer k a d) = applyIfNewer k a (applyIfNewer k b d)"
  by (auto simp: applyIfNewer_def split: option.splits)

lemma applyIfNewer_newer:
  "sint (Timestamp a) < sint (Timestamp b) \<Longrightarrow>
   d k = None \<or> (\<exists>e0. d k = Some e0 \<and> sint (Timestamp e0) \<le> sint (Timestamp b)) \<Longrightarrow>
   \<exists>e. applyIfNewer k b (applyIfNewer k a d) k = Some e \<and>
       sint (Timestamp e) = sint (Timestamp b)"
  by (auto simp: applyIfNewer_def split: option.splits)

lemma replicateHandler_valid:
  "Get q ''key'' \<noteq> [] \<Longrightarrow> ParseInt (Get q ''timestamp'') = Inr t \<Longrightarrow>
   replicateHandler q g =
     (Response 200 NoBody,
      g\<lparr>svc := applyIfNewer (Get q ''key'')
             \<lparr>Value = Get q ''value'', Timestamp = word_of_int t\<rparr> (svc g)\<rparr>)"
  by (simp add: replicateHandler_def)

lemma applyIfNewer_explicit:
  "applyIfNewer k c d =
     (if d k = None \<or> (\<exists>e. d k = Some e \<and> sint (Timestamp e) < sint (Timestamp c))
      then d(k \<mapsto> c) else d)"
  by (auto simp: applyIfNewer_def split: option.splits)

text \<open>
  C7. \<^verbatim>\<open>replicateHandler\<close> answers \<^verbatim>\<open>400 invalid replicate args\<close> exactly when the key
  is empty or the timestamp is not the decimal form of an \<^verbatim>\<open>int64\<close>, and then leaves
  the node as it was. Every other request is answered \<^verbatim>\<open>200\<close>; the entry of the request
  is stored when the key had no entry or one with a strictly smaller timestamp, and the
  store is left as it was otherwise (a stored entry with the same or a greater
  timestamp stays). Nothing else of the node changes.
\<close>

theorem replicateHandler_validates:
  "(fst (replicateHandler q g) = httpError ''invalid replicate args'' 400
      \<longleftrightarrow> (Get q ''key'' = [] \<or> (\<forall>i. ParseInt (Get q ''timestamp'') \<noteq> Inr i))) \<and>
   (fst (replicateHandler q g) = httpError ''invalid replicate args'' 400
      \<longrightarrow> snd (replicateHandler q g) = g) \<and>
   (fst (replicateHandler q g) \<noteq> httpError ''invalid replicate args'' 400
      \<longrightarrow> fst (replicateHandler q g) = Response 200 NoBody \<and>
          (\<exists>i. ParseInt (Get q ''timestamp'') = Inr i \<and> - (2 ^ 63) \<le> i \<and> i < 2 ^ 63 \<and>
             snd (replicateHandler q g) =
               g\<lparr>svc :=
                  (if svc g (Get q ''key'') = None \<or>
                      (\<exists>e. svc g (Get q ''key'') = Some e \<and> sint (Timestamp e) < i)
                   then (svc g)(Get q ''key'' \<mapsto>
                          \<lparr>Value = Get q ''value'', Timestamp = word_of_int i\<rparr>)
                   else svc g)\<rparr>))"
proof -
  have valid: "\<And>i. Get q ''key'' \<noteq> [] \<Longrightarrow> ParseInt (Get q ''timestamp'') = Inr i \<Longrightarrow>
      replicateHandler q g =
        (Response 200 NoBody,
         g\<lparr>svc :=
            (if svc g (Get q ''key'') = None \<or>
                (\<exists>e. svc g (Get q ''key'') = Some e \<and> sint (Timestamp e) < i)
             then (svc g)(Get q ''key'' \<mapsto> \<lparr>Value = Get q ''value'', Timestamp = word_of_int i\<rparr>)
             else svc g)\<rparr>)"
    by (simp add: replicateHandler_valid applyIfNewer_explicit sint_ParseInt)
  show ?thesis
  proof (cases "Get q ''key'' = [] \<or> (\<forall>i. ParseInt (Get q ''timestamp'') \<noteq> Inr i)")
    case True
    then have "replicateHandler q g = (httpError ''invalid replicate args'' 400, g)"
      by (auto simp: replicateHandler_def Let_def split: sum.splits)
    with True show ?thesis by simp
  next
    case False
    then obtain i where i: "ParseInt (Get q ''timestamp'') = Inr i" and k: "Get q ''key'' \<noteq> []"
      by auto
    from valid [OF k i] i k ParseInt_range [OF i] show ?thesis
      by (simp add: httpError_def)
  qed
qed

theorem replicateHandler_validates_witness:
  "replicateHandler (query [(''key'', ''k''), (''value'', ''a''), (''timestamp'', ''12'')])
      (node0\<lparr>svc := [''k'' \<mapsto> \<lparr>Value = ''z'', Timestamp = 10\<rparr>]\<rparr>) =
     (Response 200 NoBody, node0\<lparr>svc := [''k'' \<mapsto> \<lparr>Value = ''a'', Timestamp = 12\<rparr>]\<rparr>) \<and>
   replicateHandler (query [(''key'', ''k''), (''value'', ''a''), (''timestamp'', ''7'')])
      (node0\<lparr>svc := [''k'' \<mapsto> \<lparr>Value = ''z'', Timestamp = 10\<rparr>]\<rparr>) =
     (Response 200 NoBody, node0\<lparr>svc := [''k'' \<mapsto> \<lparr>Value = ''z'', Timestamp = 10\<rparr>]\<rparr>) \<and>
   replicateHandler (query [(''key'', ''k''), (''value'', ''a''), (''timestamp'', ''10'')])
      (node0\<lparr>svc := [''k'' \<mapsto> \<lparr>Value = ''z'', Timestamp = 10\<rparr>]\<rparr>) =
     (Response 200 NoBody, node0\<lparr>svc := [''k'' \<mapsto> \<lparr>Value = ''z'', Timestamp = 10\<rparr>]\<rparr>) \<and>
   replicateHandler (query [(''key'', ''k''), (''value'', ''a''), (''timestamp'', ''1x'')])
      (node0\<lparr>svc := [''k'' \<mapsto> \<lparr>Value = ''z'', Timestamp = 10\<rparr>]\<rparr>) =
     (httpError ''invalid replicate args'' 400,
      node0\<lparr>svc := [''k'' \<mapsto> \<lparr>Value = ''z'', Timestamp = 10\<rparr>]\<rparr>)"
  using
    replicateHandler_validates [of "query [(''key'', ''k''), (''value'', ''a''), (''timestamp'', ''12'')]"
      "node0\<lparr>svc := [''k'' \<mapsto> \<lparr>Value = ''z'', Timestamp = 10\<rparr>]\<rparr>"]
    replicateHandler_validates [of "query [(''key'', ''k''), (''value'', ''a''), (''timestamp'', ''7'')]"
      "node0\<lparr>svc := [''k'' \<mapsto> \<lparr>Value = ''z'', Timestamp = 10\<rparr>]\<rparr>"]
    replicateHandler_validates [of "query [(''key'', ''k''), (''value'', ''a''), (''timestamp'', ''10'')]"
      "node0\<lparr>svc := [''k'' \<mapsto> \<lparr>Value = ''z'', Timestamp = 10\<rparr>]\<rparr>"]
    replicateHandler_validates [of "query [(''key'', ''k''), (''value'', ''a''), (''timestamp'', ''1x'')]"
      "node0\<lparr>svc := [''k'' \<mapsto> \<lparr>Value = ''z'', Timestamp = 10\<rparr>]\<rparr>"]
  by (auto simp: eval_simps prod_eq_iff)

lemma applyIfNewer_twice:
  "sint (Timestamp a) < sint (Timestamp b) \<Longrightarrow>
   applyIfNewer k b (applyIfNewer k a d) =
     (if d k = None \<or> (\<exists>e. d k = Some e \<and> sint (Timestamp e) < sint (Timestamp b))
      then d(k \<mapsto> b) else d)"
  by (auto simp: applyIfNewer_def split: option.splits)

text \<open>
  C6 (as the code has it). Two validated replicate requests for the same key with
  timestamps \<open>t1 < t2\<close> leave the node in the same state whichever comes first, whatever
  the store held. When the store held no entry for the key, or one whose timestamp is
  at most \<open>t2\<close>, the entry stored afterwards has timestamp \<open>t2\<close>; it is the entry of
  the second request when the store held none or a strictly older one. An entry already
  stored with timestamp \<open>t2\<close> or greater is kept.
\<close>

theorem replicate_order_independent:
  assumes "Get q1 ''key'' = k" and "Get q2 ''key'' = k" and "k \<noteq> []"
    and "ParseInt (Get q1 ''timestamp'') = Inr t1"
    and "ParseInt (Get q2 ''timestamp'') = Inr t2"
    and "t1 < t2"
  shows "snd (replicateHandler q2 (snd (replicateHandler q1 g))) =
           snd (replicateHandler q1 (snd (replicateHandler q2 g))) \<and>
         (svc g k = None \<or> (\<exists>e0. svc g k = Some e0 \<and> sint (Timestamp e0) \<le> t2) \<longrightarrow>
            (\<exists>e. svc (snd (replicateHandler q2 (snd (replicateHandler q1 g)))) k = Some e \<and>
                 sint (Timestamp e) = t2)) \<and>
         (svc g k = None \<or> (\<exists>e0. svc g k = Some e0 \<and> sint (Timestamp e0) < t2) \<longrightarrow>
            svc (snd (replicateHandler q2 (snd (replicateHandler q1 g)))) k =
              Some \<lparr>Value = Get q2 ''value'', Timestamp = word_of_int t2\<rparr>) \<and>
         (\<forall>e0. svc g k = Some e0 \<and> t2 \<le> sint (Timestamp e0) \<longrightarrow>
            svc (snd (replicateHandler q2 (snd (replicateHandler q1 g)))) k = Some e0)"
proof -
  let ?a = "\<lparr>Value = Get q1 ''value'', Timestamp = word_of_int t1 :: int64\<rparr>"
  let ?b = "\<lparr>Value = Get q2 ''value'', Timestamp = word_of_int t2 :: int64\<rparr>"
  let ?final = "snd (replicateHandler q2 (snd (replicateHandler q1 g)))"
  have ta: "sint (Timestamp ?a) = t1" using assms(4) by (simp add: sint_ParseInt)
  have tb: "sint (Timestamp ?b) = t2" using assms(5) by (simp add: sint_ParseInt)
  have lt: "sint (Timestamp ?a) < sint (Timestamp ?b)" using ta tb assms(6) by simp
  have fin: "?final = g\<lparr>svc := applyIfNewer k ?b (applyIfNewer k ?a (svc g))\<rparr>"
    using assms(1-5) by (simp add: replicateHandler_valid)
  have other: "snd (replicateHandler q1 (snd (replicateHandler q2 g))) =
      g\<lparr>svc := applyIfNewer k ?a (applyIfNewer k ?b (svc g))\<rparr>"
    using assms(1-5) by (simp add: replicateHandler_valid)
  have comm: "applyIfNewer k ?b (applyIfNewer k ?a (svc g)) =
      applyIfNewer k ?a (applyIfNewer k ?b (svc g))"
    by (rule applyIfNewer_commute [OF lt])
  have store: "svc ?final =
      (if svc g k = None \<or> (\<exists>e. svc g k = Some e \<and> sint (Timestamp e) < t2)
       then (svc g)(k \<mapsto> ?b) else svc g)"
    using applyIfNewer_twice [OF lt, of k "svc g"] tb by (simp add: fin)
  have c1: "?final = snd (replicateHandler q1 (snd (replicateHandler q2 g)))"
    using fin other comm by simp
  have c2: "svc g k = None \<or> (\<exists>e0. svc g k = Some e0 \<and> sint (Timestamp e0) \<le> t2) \<longrightarrow>
      (\<exists>e. svc ?final k = Some e \<and> sint (Timestamp e) = t2)"
    using store tb by (auto simp: not_less)
  have c3: "svc g k = None \<or> (\<exists>e0. svc g k = Some e0 \<and> sint (Timestamp e0) < t2) \<longrightarrow>
      svc ?final k = Some ?b"
    using store by auto
  have c4: "\<forall>e0. svc g k = Some e0 \<and> t2 \<le> sint (Timestamp e0) \<longrightarrow> svc ?final k = Some e0"
    using store by auto
  from c1 c2 c3 c4 show ?thesis by blast
qed

theorem replicate_order_independent_witness:
  "snd (replicateHandler (query [(''key'', ''k''), (''value'', ''b''), (''timestamp'', ''9'')])
     (snd (replicateHandler (query [(''key'', ''k''), (''value'', ''a''), (''timestamp'', ''-4'')])
        (node0\<lparr>svc := [''k'' \<mapsto> \<lparr>Value = ''z'', Timestamp = 3\<rparr>]\<rparr>)))) =
   snd (replicateHandler (query [(''key'', ''k''), (''value'', ''a''), (''timestamp'', ''-4'')])
     (snd (replicateHandler (query [(''key'', ''k''), (''value'', ''b''), (''timestamp'', ''9'')])
        (node0\<lparr>svc := [''k'' \<mapsto> \<lparr>Value = ''z'', Timestamp = 3\<rparr>]\<rparr>)))) \<and>
   svc (snd (replicateHandler (query [(''key'', ''k''), (''value'', ''b''), (''timestamp'', ''9'')])
     (snd (replicateHandler (query [(''key'', ''k''), (''value'', ''a''), (''timestamp'', ''-4'')])
        (node0\<lparr>svc := [''k'' \<mapsto> \<lparr>Value = ''z'', Timestamp = 3\<rparr>]\<rparr>))))) ''k'' =
     Some \<lparr>Value = ''b'', Timestamp = 9\<rparr> \<and>
   svc (snd (replicateHandler (query [(''key'', ''k''), (''value'', ''b''), (''timestamp'', ''9'')])
     (snd (replicateHandler (query [(''key'', ''k''), (''value'', ''a''), (''timestamp'', ''-4'')])
        (node0\<lparr>svc := [''k'' \<mapsto> \<lparr>Value = ''n'', Timestamp = 30\<rparr>]\<rparr>))))) ''k'' =
     Some \<lparr>Value = ''n'', Timestamp = 30\<rparr>"
proof -
  let ?q1 = "query [(''key'', ''k''), (''value'', ''a''), (''timestamp'', ''-4'')]"
  let ?q2 = "query [(''key'', ''k''), (''value'', ''b''), (''timestamp'', ''9'')]"
  let ?g = "node0\<lparr>svc := [''k'' \<mapsto> \<lparr>Value = ''z'', Timestamp = 3\<rparr>]\<rparr>"
  let ?h = "node0\<lparr>svc := [''k'' \<mapsto> \<lparr>Value = ''n'', Timestamp = 30\<rparr>]\<rparr>"
  have k1: "Get ?q1 ''key'' = ''k''" and k2: "Get ?q2 ''key'' = ''k''" and ne: "''k'' \<noteq> []"
    and p1: "ParseInt (Get ?q1 ''timestamp'') = Inr (- 4)"
    and p2: "ParseInt (Get ?q2 ''timestamp'') = Inr 9" and lt: "(- 4 :: int) < 9"
    and v: "Get ?q2 ''value'' = ''b''"
    by (simp_all add: eval_simps)
  have sg: "svc ?g ''k'' = Some \<lparr>Value = ''z'', Timestamp = 3\<rparr>"
    and sh: "svc ?h ''k'' = Some \<lparr>Value = ''n'', Timestamp = 30\<rparr>"
    by (simp_all add: node0_def)
  note A = replicate_order_independent [OF k1 k2 ne p1 p2 lt, of ?g]
  note B = replicate_order_independent [OF k1 k2 ne p1 p2 lt, of ?h]
  from A have a1: "snd (replicateHandler ?q2 (snd (replicateHandler ?q1 ?g))) =
      snd (replicateHandler ?q1 (snd (replicateHandler ?q2 ?g)))"
    by (rule conjunct1)
  from A have "svc ?g ''k'' = None \<or> (\<exists>e0. svc ?g ''k'' = Some e0 \<and> sint (Timestamp e0) < 9) \<longrightarrow>
      svc (snd (replicateHandler ?q2 (snd (replicateHandler ?q1 ?g)))) ''k'' =
        Some \<lparr>Value = Get ?q2 ''value'', Timestamp = word_of_int 9\<rparr>"
    by blast
  moreover have "\<exists>e0. svc ?g ''k'' = Some e0 \<and> sint (Timestamp e0) < 9"
    using sg by simp
  ultimately have a3: "svc (snd (replicateHandler ?q2 (snd (replicateHandler ?q1 ?g)))) ''k'' =
      Some \<lparr>Value = ''b'', Timestamp = 9\<rparr>"
    using v by simp
  from B have "\<forall>e0. svc ?h ''k'' = Some e0 \<and> 9 \<le> sint (Timestamp e0) \<longrightarrow>
      svc (snd (replicateHandler ?q2 (snd (replicateHandler ?q1 ?h)))) ''k'' = Some e0"
    by blast
  moreover have "svc ?h ''k'' = Some \<lparr>Value = ''n'', Timestamp = 30\<rparr> \<and>
      9 \<le> sint (Timestamp \<lparr>Value = ''n'', Timestamp = 30 :: int64\<rparr>)"
    using sh by simp
  ultimately have b4: "svc (snd (replicateHandler ?q2 (snd (replicateHandler ?q1 ?h)))) ''k'' =
      Some \<lparr>Value = ''n'', Timestamp = 30\<rparr>"
    by blast
  from a1 a3 b4 show ?thesis by blast
qed

text \<open>
  Without the condition on the store the final timestamp need not be \<open>t2\<close>: an entry
  with timestamp 10 that is already stored survives both orders of the requests with
  timestamps 1 and 2.
\<close>

theorem replicate_newer_stored_counterexample:
  "svc (snd (replicateHandler (query [(''key'', ''k''), (''value'', ''b''), (''timestamp'', ''2'')])
     (snd (replicateHandler (query [(''key'', ''k''), (''value'', ''a''), (''timestamp'', ''1'')])
        (node0\<lparr>svc := [''k'' \<mapsto> \<lparr>Value = ''z'', Timestamp = 10\<rparr>]\<rparr>))))) ''k''
     = Some \<lparr>Value = ''z'', Timestamp = 10\<rparr> \<and>
   svc (snd (replicateHandler (query [(''key'', ''k''), (''value'', ''a''), (''timestamp'', ''1'')])
     (snd (replicateHandler (query [(''key'', ''k''), (''value'', ''b''), (''timestamp'', ''2'')])
        (node0\<lparr>svc := [''k'' \<mapsto> \<lparr>Value = ''z'', Timestamp = 10\<rparr>]\<rparr>))))) ''k''
     = Some \<lparr>Value = ''z'', Timestamp = 10\<rparr>"
  by (simp add: replicateHandler_def applyIfNewer_def eval_simps)

section \<open>Reconfiguration changes the three numbers only\<close>

lemma Atoi_empty: "Atoi [] = Inl ErrSyntax"
  by (simp add: Atoi_def ParseInt_def)

lemma Get_absent: "q key = [] \<Longrightarrow> Get q key = []"
  by (simp add: Get_def)

text \<open>
  C8. \<^verbatim>\<open>configHandler\<close> always answers \<^verbatim>\<open>200\<close> with a text; the store, the peer list
  and the leader flag are unchanged; each of \<open>N\<close>, \<open>W\<close>, \<open>R\<close> becomes the value that
  \<^verbatim>\<open>Atoi\<close> reads from the parameter of that name when it reads one, and keeps its
  previous value when the parameter is absent or \<^verbatim>\<open>Atoi\<close> rejects it.
\<close>

theorem configHandler_frame:
  "(\<exists>txt. fst (configHandler q g) = Response 200 (Text txt)) \<and>
   svc (snd (configHandler q g)) = svc g \<and>
   peers (snd (configHandler q g)) = peers g \<and>
   isLeader (snd (configHandler q g)) = isLeader g \<and>
   N (snd (configHandler q g)) = (case Atoi (Get q ''N'') of Inr i \<Rightarrow> i | Inl err \<Rightarrow> N g) \<and>
   W (snd (configHandler q g)) = (case Atoi (Get q ''W'') of Inr i \<Rightarrow> i | Inl err \<Rightarrow> W g) \<and>
   R (snd (configHandler q g)) = (case Atoi (Get q ''R'') of Inr i \<Rightarrow> i | Inl err \<Rightarrow> R g) \<and>
   (q ''N'' = [] \<longrightarrow> N (snd (configHandler q g)) = N g) \<and>
   (q ''W'' = [] \<longrightarrow> W (snd (configHandler q g)) = W g) \<and>
   (q ''R'' = [] \<longrightarrow> R (snd (configHandler q g)) = R g)"
  by (auto simp: configHandler_def Let_def Atoi_empty Get_absent split: sum.splits)

theorem configHandler_frame_witness:
  "N (snd (configHandler (query [(''W'', ''2''), (''R'', ''x3'')]) leader3)) = 3 \<and>
   W (snd (configHandler (query [(''W'', ''2''), (''R'', ''x3'')]) leader3)) = 2 \<and>
   R (snd (configHandler (query [(''W'', ''2''), (''R'', ''x3'')]) leader3)) = 1 \<and>
   fst (configHandler (query [(''W'', ''2''), (''R'', ''x3'')]) leader3) = 
     Response 200 (Text (''reconfigured to N=3 W=2 R=1'' @ [CHR 0x0A]))"
  using configHandler_frame [of "query [(''W'', ''2''), (''R'', ''x3'')]" leader3]
  by (simp add: configHandler_def eval_simps)

section \<open>Client writes: who coordinates, the quorum, the fan-out\<close>

lemma fanoutAll_fst:
  "fst (fanoutAll post key val ts i ps a) = a + int (peerAcks post key val ts i ps)"
  by (induction ps arbitrary: i a) (auto simp: Let_def case_prod_beta)

lemma fanoutAll_snd:
  "snd (fanoutAll post key val ts i ps a) = map (\<lambda>p. replicateURL p key val ts) ps"
  by (induction ps arbitrary: i a) (auto simp: Let_def case_prod_beta)

lemma fanoutUntil_quorum:
  "fst (fanoutUntil w post key val ts i ps a) < w \<longleftrightarrow> a + int (peerAcks post key val ts i ps) < w"
  by (induction ps arbitrary: i a) (auto simp: Let_def case_prod_beta)

lemma fanoutUntil_nonempty:
  "ps \<noteq> [] \<Longrightarrow> snd (fanoutUntil w post key val ts i ps a) \<noteq> []"
  by (cases ps) (auto simp: Let_def case_prod_beta)

lemma fanoutUntil_prefix:
  "prefix (snd (fanoutUntil w post key val ts i ps a)) (map (\<lambda>p. replicateURL p key val ts) ps)"
  by (induction ps arbitrary: i a) (auto simp: Let_def case_prod_beta)

lemma fanoutUntil_stops:
  "length (snd (fanoutUntil w post key val ts i ps a)) < length ps \<Longrightarrow>
   w \<le> a + int (peerAcks post key val ts i (take (length (snd (fanoutUntil w post key val ts i ps a))) ps))"
proof (induction ps arbitrary: i a)
  case Nil
  then show ?case by simp
next
  case (Cons p ps)
  let ?a1 = "if replicateTo (post i) p key val ts then a + 1 else a"
  show ?case
  proof (cases "w \<le> ?a1")
    case True
    then show ?thesis by (auto simp: Let_def)
  next
    case False
    with Cons.prems have "length (snd (fanoutUntil w post key val ts (Suc i) ps ?a1)) < length ps"
      by (auto simp: Let_def case_prod_beta split: if_splits)
    from Cons.IH [OF this] False show ?thesis
      by (auto simp: Let_def case_prod_beta split: if_splits)
  qed
qed

lemma fanoutUntil_not_before:
  "0 < m \<Longrightarrow> m < length (snd (fanoutUntil w post key val ts i ps a)) \<Longrightarrow>
   a + int (peerAcks post key val ts i (take m ps)) < w"
proof (induction ps arbitrary: i a m)
  case Nil
  then show ?case by simp
next
  case (Cons p ps)
  let ?a1 = "if replicateTo (post i) p key val ts then a + 1 else a"
  from Cons.prems have nostop: "\<not> w \<le> ?a1"
    by (auto simp: Let_def case_prod_beta split: if_splits)
  obtain m' where m: "m = Suc m'" using Cons.prems(1) by (cases m) auto
  show ?case
  proof (cases "m' = 0")
    case True
    with m nostop show ?thesis by (auto split: if_splits)
  next
    case False
    from Cons.prems m nostop
    have "m' < length (snd (fanoutUntil w post key val ts (Suc i) ps ?a1))"
      by (auto simp: Let_def case_prod_beta split: if_splits)
    from Cons.IH [OF _ this] False
    have "?a1 + int (peerAcks post key val ts (Suc i) (take m' ps)) < w" by simp
    with m show ?thesis by (auto split: if_splits)
  qed
qed

lemma peerAcks_take_le:
  "peerAcks post key val ts i (take m ps) \<le> peerAcks post key val ts i ps"
proof (induction ps arbitrary: i m)
  case Nil
  then show ?case by simp
next
  case (Cons p ps)
  then show ?case by (cases m) (auto simp: le_SucI)
qed

lemma prefix_same_length: "prefix xs ys \<Longrightarrow> length ys \<le> length xs \<Longrightarrow> xs = ys"
  by (auto simp: prefix_def)

lemmas write_eval =
  setHandler_def putHandler_def replicateTo_def replicateURL_def Let_def eval_simps

text \<open>
  C2 (as the code has it). For a write with a non-empty key: \<^verbatim>\<open>setHandler\<close> coordinates
  exactly when the node is the leader or \<^verbatim>\<open>W == N\<close>, and \<^verbatim>\<open>putHandler\<close> exactly when
  the node is the leader. A coordinated write stores the entry locally, leaves the rest
  of the node as it was, and sends replicate requests when there are peers. Every other
  write is answered \<^verbatim>\<open>400 writes only allowed on leader\<close>, changes nothing and sends
  nothing.
\<close>

theorem write_gate:
  assumes "Get q ''key'' \<noteq> []"
  shows
   "((isLeader g \<or> W g = N g) \<longrightarrow>
       response (setHandler wd q g) \<noteq> httpError ''writes only allowed on leader'' 400 \<and>
       after (setHandler wd q g) =
         g\<lparr>svc := (svc g)(Get q ''key'' \<mapsto>
              \<lparr>Value = Get q ''value'', Timestamp = UnixNano wd\<rparr>)\<rparr> \<and>
       (peers g \<noteq> [] \<longrightarrow> awaited (setHandler wd q g) @ detached (setHandler wd q g) \<noteq> [])) \<and>
    (\<not> (isLeader g \<or> W g = N g) \<longrightarrow>
       setHandler wd q g =
         \<lparr>response = httpError ''writes only allowed on leader'' 400, after = g,
          awaited = [], detached = []\<rparr>) \<and>
    (isLeader g \<longrightarrow>
       response (putHandler wd q g) \<noteq> httpError ''writes only allowed on leader'' 400 \<and>
       after (putHandler wd q g) =
         g\<lparr>svc := (svc g)(Get q ''key'' \<mapsto>
              \<lparr>Value = Get q ''value'', Timestamp = UnixNano wd\<rparr>)\<rparr> \<and>
       (peers g \<noteq> [] \<longrightarrow> awaited (putHandler wd q g) @ detached (putHandler wd q g) \<noteq> [])) \<and>
    (\<not> isLeader g \<longrightarrow>
       putHandler wd q g =
         \<lparr>response = httpError ''writes only allowed on leader'' 400, after = g,
          awaited = [], detached = []\<rparr>)"
  using assms
  by (auto simp: setHandler_def putHandler_def Let_def case_prod_beta httpError_def
      fanoutAll_snd fanoutUntil_nonempty)

theorem write_gate_witness:
  "Get (query [(''key'', ''k''), (''value'', ''v'')]) ''key'' \<noteq> [] \<and>
   response (setHandler (allUp 5) (query [(''key'', ''k''), (''value'', ''v'')]) leader3)
     \<noteq> httpError ''writes only allowed on leader'' 400 \<and>
   after (setHandler (allUp 5) (query [(''key'', ''k''), (''value'', ''v'')]) leader3) =
     leader3\<lparr>svc := [''k'' \<mapsto> \<lparr>Value = ''v'', Timestamp = 5\<rparr>]\<rparr> \<and>
   putHandler (allUp 5) (query [(''key'', ''k''), (''value'', ''v'')]) node0 =
     \<lparr>response = httpError ''writes only allowed on leader'' 400, after = node0,
      awaited = [], detached = []\<rparr>"
  using write_gate [of "query [(''key'', ''k''), (''value'', ''v'')]" leader3 "allUp 5"]
    write_gate [of "query [(''key'', ''k''), (''value'', ''v'')]" node0 "allUp 5"]
  by (simp add: eval_simps)

text \<open>
  \<^verbatim>\<open>putHandler\<close> has no leaderless mode: a node that is not the leader rejects the write
  although \<^verbatim>\<open>W == N\<close>.
\<close>

theorem put_peer_unanimous_counterexample:
  "\<not> isLeader node0 \<and> W node0 = N node0 \<and>
   putHandler (allUp 5) (query [(''key'', ''k''), (''value'', ''v'')]) node0 =
     \<lparr>response = httpError ''writes only allowed on leader'' 400, after = node0,
      awaited = [], detached = []\<rparr>"
  by (simp add: write_eval)

lemma replicateTo_200:
  "replicateTo (post i) p key val ts \<longleftrightarrow>
   post i (''http://'' @ p @ ''/replicate?key='' @ key @ ''&value='' @ val @
           ''&timestamp='' @ FormatInt (sint ts)) = PostStatus 200"
  by (simp add: replicateTo_def replicateURL_def split: PostResult.splits)

lemma peerAcks_peers200:
  "peerAcks post key val ts i ps = peers200 post key val ts i ps"
  by (induction ps arbitrary: i) (simp_all add: replicateTo_200)

text \<open>
  C3 (as the code has it). A write with a non-empty key that the handler coordinates
  (\<^verbatim>\<open>setHandler\<close>: the leader, or any node when \<^verbatim>\<open>W == N\<close>; \<^verbatim>\<open>putHandler\<close>: the
  leader) is answered \<^verbatim>\<open>500 write quorum not met\<close> if and only if one, for the local
  write, plus the number of peers that answer the replicate request with \<^verbatim>\<open>200\<close> is
  less than \<^verbatim>\<open>W\<close>; otherwise it is accepted (\<^verbatim>\<open>201\<close> by \<^verbatim>\<open>setHandler\<close>, \<^verbatim>\<open>200\<close>
  by \<^verbatim>\<open>putHandler\<close>). \<^verbatim>\<open>putHandler\<close> on a node that is not the leader answers
  \<^verbatim>\<open>400 writes only allowed on leader\<close>.
\<close>

theorem write_quorum:
  assumes "Get q ''key'' \<noteq> []"
  shows
   "((isLeader g \<or> W g = N g) \<longrightarrow>
       (response (setHandler wd q g) = httpError ''write quorum not met'' 500 \<longleftrightarrow>
          1 + int (peers200 (Post wd) (Get q ''key'') (Get q ''value'') (UnixNano wd) 0 (peers g))
            < W g) \<and>
       (response (setHandler wd q g) \<noteq> httpError ''write quorum not met'' 500 \<longrightarrow>
          response (setHandler wd q g) = Response 201 NoBody)) \<and>
    (isLeader g \<longrightarrow>
       (response (putHandler wd q g) = httpError ''write quorum not met'' 500 \<longleftrightarrow>
          1 + int (peers200 (Post wd) (Get q ''key'') (Get q ''value'') (UnixNano wd) 0 (peers g))
            < W g) \<and>
       (response (putHandler wd q g) \<noteq> httpError ''write quorum not met'' 500 \<longrightarrow>
          response (putHandler wd q g) = Response 200 NoBody)) \<and>
    (\<not> isLeader g \<longrightarrow>
       response (putHandler wd q g) = httpError ''writes only allowed on leader'' 400)"
proof -
  let ?n = "1 + int (peers200 (Post wd) (Get q ''key'') (Get q ''value'') (UnixNano wd) 0 (peers g))"
  have all: "fst (fanoutAll (Post wd) (Get q ''key'') (Get q ''value'') (UnixNano wd) 0 (peers g) 1) = ?n"
    by (simp add: fanoutAll_fst peerAcks_peers200)
  have until: "fst (fanoutUntil (W g) (Post wd) (Get q ''key'') (Get q ''value'') (UnixNano wd) 0 (peers g) 1) < W g
      \<longleftrightarrow> ?n < W g"
    by (simp add: fanoutUntil_quorum peerAcks_peers200)
  show ?thesis
    using assms all until
    by (auto simp: setHandler_def putHandler_def Let_def case_prod_beta httpError_def)
qed

theorem write_quorum_witness:
  "Get (query [(''key'', ''k''), (''value'', ''v'')]) ''key'' \<noteq> [] \<and>
   response (setHandler (allUp 5) (query [(''key'', ''k''), (''value'', ''v'')]) leader3)
     = Response 201 NoBody \<and>
   response (putHandler (allUp 5) (query [(''key'', ''k''), (''value'', ''v'')]) leader3)
     = Response 200 NoBody \<and>
   response (setHandler
       (allUp 5\<lparr>Post := \<lambda>i url. if i = 0 then PostStatus 200 else PostStatus 503\<rparr>)
       (query [(''key'', ''k''), (''value'', ''v'')]) leader3)
     = httpError ''write quorum not met'' 500 \<and>
   response (putHandler
       (allUp 5\<lparr>Post := \<lambda>i url. if i = 0 then PostErr else PostStatus 200\<rparr>)
       (query [(''key'', ''k''), (''value'', ''v'')]) leader3)
     = httpError ''write quorum not met'' 500"
  using write_quorum [of "query [(''key'', ''k''), (''value'', ''v'')]" leader3 "allUp 5"]
    write_quorum [of "query [(''key'', ''k''), (''value'', ''v'')]" leader3
      "allUp 5\<lparr>Post := \<lambda>i url. if i = 0 then PostStatus 200 else PostStatus 503\<rparr>"]
    write_quorum [of "query [(''key'', ''k''), (''value'', ''v'')]" leader3
      "allUp 5\<lparr>Post := \<lambda>i url. if i = 0 then PostErr else PostStatus 200\<rparr>"]
  by (simp add: eval_simps)

text \<open>
  A node that is not the leader, with \<^verbatim>\<open>W == N == 3\<close> and both peers healthy:
  \<^verbatim>\<open>putHandler\<close> answers neither \<^verbatim>\<open>200\<close> nor \<^verbatim>\<open>500 write quorum not met\<close>, where
  \<^verbatim>\<open>setHandler\<close> accepts the write.
\<close>

theorem put_peer_no_verdict_counterexample:
  "\<not> isLeader (leader3\<lparr>isLeader := False\<rparr>) \<and>
   W (leader3\<lparr>isLeader := False\<rparr>) = N (leader3\<lparr>isLeader := False\<rparr>) \<and>
   response (putHandler (allUp 5) (query [(''key'', ''k''), (''value'', ''v'')])
       (leader3\<lparr>isLeader := False\<rparr>)) = httpError ''writes only allowed on leader'' 400 \<and>
   response (putHandler (allUp 5) (query [(''key'', ''k''), (''value'', ''v'')])
       (leader3\<lparr>isLeader := False\<rparr>)) \<noteq> Response 200 NoBody \<and>
   response (putHandler (allUp 5) (query [(''key'', ''k''), (''value'', ''v'')])
       (leader3\<lparr>isLeader := False\<rparr>)) \<noteq> httpError ''write quorum not met'' 500 \<and>
   response (setHandler (allUp 5) (query [(''key'', ''k''), (''value'', ''v'')])
       (leader3\<lparr>isLeader := False\<rparr>)) = Response 201 NoBody"
  by (simp add: write_eval)

text \<open>
  C4 (as the code has it). For a coordinated write with \<^verbatim>\<open>W > 1\<close>: \<^verbatim>\<open>putHandler\<close>, and
  \<^verbatim>\<open>setHandler\<close> on a node that is not the leader, have completed a replicate request
  to every peer when they answer, and detach none. The leader in \<^verbatim>\<open>setHandler\<close>
  contacts the peers in list order and stops as soon as the acknowledgments, the local
  one included, reach \<^verbatim>\<open>W\<close>: the requests it completed are a prefix of the peer list,
  not empty when there are peers, no shorter prefix reached \<^verbatim>\<open>W\<close>, a proper prefix did
  reach \<^verbatim>\<open>W\<close>, and when the quorum is not met every peer was contacted.
\<close>

theorem write_fanout:
  assumes "Get q ''key'' \<noteq> []" and "W g > 1"
  shows
   "(isLeader g \<longrightarrow>
       awaited (putHandler wd q g) =
         map (\<lambda>p. replicateURL p (Get q ''key'') (Get q ''value'') (UnixNano wd)) (peers g) \<and>
       detached (putHandler wd q g) = []) \<and>
    (\<not> isLeader g \<and> W g = N g \<longrightarrow>
       awaited (setHandler wd q g) =
         map (\<lambda>p. replicateURL p (Get q ''key'') (Get q ''value'') (UnixNano wd)) (peers g) \<and>
       detached (setHandler wd q g) = []) \<and>
    (isLeader g \<longrightarrow>
       detached (setHandler wd q g) = [] \<and>
       prefix (awaited (setHandler wd q g))
         (map (\<lambda>p. replicateURL p (Get q ''key'') (Get q ''value'') (UnixNano wd)) (peers g)) \<and>
       (peers g \<noteq> [] \<longrightarrow> awaited (setHandler wd q g) \<noteq> []) \<and>
       (length (awaited (setHandler wd q g)) < length (peers g) \<longrightarrow>
          W g \<le> 1 + int (peerAcks (Post wd) (Get q ''key'') (Get q ''value'') (UnixNano wd) 0
                   (take (length (awaited (setHandler wd q g))) (peers g)))) \<and>
       (\<forall>m. 0 < m \<and> m < length (awaited (setHandler wd q g)) \<longrightarrow>
          1 + int (peerAcks (Post wd) (Get q ''key'') (Get q ''value'') (UnixNano wd) 0
                   (take m (peers g))) < W g) \<and>
       (response (setHandler wd q g) = httpError ''write quorum not met'' 500 \<longrightarrow>
          awaited (setHandler wd q g) =
            map (\<lambda>p. replicateURL p (Get q ''key'') (Get q ''value'') (UnixNano wd)) (peers g)))"
proof -
  let ?k = "Get q ''key''" and ?v = "Get q ''value''" and ?t = "UnixNano wd"
  let ?urls = "map (\<lambda>p. replicateURL p ?k ?v ?t) (peers g)"
  let ?u = "fanoutUntil (W g) (Post wd) ?k ?v ?t 0 (peers g) 1"
  have put: "isLeader g \<Longrightarrow> awaited (putHandler wd q g) = ?urls \<and> detached (putHandler wd q g) = []"
    using assms by (simp add: putHandler_def Let_def case_prod_beta fanoutAll_snd)
  have less: "\<not> isLeader g \<and> W g = N g \<Longrightarrow>
      awaited (setHandler wd q g) = ?urls \<and> detached (setHandler wd q g) = []"
    using assms by (simp add: setHandler_def Let_def case_prod_beta fanoutAll_snd)
  have aw: "isLeader g \<Longrightarrow> awaited (setHandler wd q g) = snd ?u \<and> detached (setHandler wd q g) = []"
    using assms by (simp add: setHandler_def Let_def case_prod_beta)
  have resp: "isLeader g \<Longrightarrow> response (setHandler wd q g) = httpError ''write quorum not met'' 500
      \<Longrightarrow> fst ?u < W g"
    using assms by (auto simp: setHandler_def Let_def case_prod_beta httpError_def split: if_splits)
  have pre: "prefix (snd ?u) ?urls" by (rule fanoutUntil_prefix)
  have ne: "peers g \<noteq> [] \<Longrightarrow> snd ?u \<noteq> []" by (rule fanoutUntil_nonempty)
  have stop: "length (snd ?u) < length (peers g) \<Longrightarrow>
      W g \<le> 1 + int (peerAcks (Post wd) ?k ?v ?t 0 (take (length (snd ?u)) (peers g)))"
    by (rule fanoutUntil_stops)
  have before: "\<And>m. 0 < m \<Longrightarrow> m < length (snd ?u) \<Longrightarrow>
      1 + int (peerAcks (Post wd) ?k ?v ?t 0 (take m (peers g))) < W g"
    by (rule fanoutUntil_not_before)
  have full: "fst ?u < W g \<Longrightarrow> snd ?u = ?urls"
  proof -
    assume lt: "fst ?u < W g"
    then have tot: "1 + int (peerAcks (Post wd) ?k ?v ?t 0 (peers g)) < W g"
      by (simp add: fanoutUntil_quorum)
    have "\<not> length (snd ?u) < length (peers g)"
    proof
      assume "length (snd ?u) < length (peers g)"
      from stop [OF this] tot
        peerAcks_take_le [of "Post wd" ?k ?v ?t 0 "length (snd ?u)" "peers g"]
      show False by linarith
    qed
    then have "length ?urls \<le> length (snd ?u)" by simp
    with pre show ?thesis by (rule prefix_same_length)
  qed
  from put less aw resp pre ne stop before full show ?thesis by auto
qed

theorem write_fanout_witness:
  "Get (query [(''key'', ''k''), (''value'', ''v'')]) ''key'' \<noteq> [] \<and> W leader3 > 1 \<and>
   awaited (putHandler (allUp 5) (query [(''key'', ''k''), (''value'', ''v'')]) leader3) =
     [''http://b:8000/replicate?key=k&value=v&timestamp=5'',
      ''http://c:8000/replicate?key=k&value=v&timestamp=5''] \<and>
   detached (setHandler (allUp 5) (query [(''key'', ''k''), (''value'', ''v'')]) leader3) = []"
  using write_fanout [of "query [(''key'', ''k''), (''value'', ''v'')]" leader3 "allUp 5"]
  by (simp add: replicateURL_def eval_simps)

text \<open>
  The leader of \<^verbatim>\<open>setHandler\<close> with \<^verbatim>\<open>W = 2\<close> and two healthy peers answers \<^verbatim>\<open>201\<close>
  after the first peer's acknowledgment; the second peer is never contacted.
\<close>

theorem set_leader_stops_counterexample:
  "W (leader3\<lparr>W := 2\<rparr>) > 1 \<and> isLeader (leader3\<lparr>W := 2\<rparr>) \<and>
   peers (leader3\<lparr>W := 2\<rparr>) = [''b:8000'', ''c:8000''] \<and>
   awaited (setHandler (allUp 5) (query [(''key'', ''k''), (''value'', ''v'')]) (leader3\<lparr>W := 2\<rparr>)) =
     [''http://b:8000/replicate?key=k&value=v&timestamp=5''] \<and>
   detached (setHandler (allUp 5) (query [(''key'', ''k''), (''value'', ''v'')]) (leader3\<lparr>W := 2\<rparr>)) = [] \<and>
   response (setHandler (allUp 5) (query [(''key'', ''k''), (''value'', ''v'')]) (leader3\<lparr>W := 2\<rparr>)) =
     Response 201 NoBody"
  by (simp add: write_eval)

section \<open>Client reads with a quorum\<close>

lemma collect_eq:
  "got < r \<Longrightarrow>
   collect r rs got best =
     (got + int (length (take (nat (r - got)) (map fst (filter snd rs)))),
      foldl pickNewer best (take (nat (r - got)) (map fst (filter snd rs))))"
proof (induction rs arbitrary: got best)
  case Nil
  then show ?case by simp
next
  case (Cons x rs)
  obtain e ok where x: "x = (e, ok)" by (cases x)
  show ?case
  proof (cases ok)
    case False
    with x Cons show ?thesis by simp
  next
    case True
    show ?thesis
    proof (cases "got + 1 \<ge> r")
      case stop: True
      with Cons.prems have "nat (r - got) = Suc 0" by simp
      with x True stop show ?thesis by (simp add: pickNewer_def Let_def)
    next
      case go: False
      then have "nat (r - got) = Suc (nat (r - (got + 1)))" by simp
      with x True go Cons.IH [of "got + 1" "pickNewer best e"] show ?thesis
        by (simp add: pickNewer_def Let_def)
    qed
  qed
qed

lemma foldl_pickNewer_keep:
  "\<forall>e\<in>set es. sint (Timestamp e) \<le> sint (Timestamp b) \<Longrightarrow> foldl pickNewer b es = b"
  by (induction es arbitrary: b) (auto simp: pickNewer_def)

lemma foldl_pickNewer_ge:
  "sint (Timestamp b) \<le> sint (Timestamp (foldl pickNewer b es))"
proof (induction es arbitrary: b)
  case Nil
  then show ?case by simp
next
  case (Cons e es)
  have "sint (Timestamp b) \<le> sint (Timestamp (pickNewer b e))"
    by (simp add: pickNewer_def)
  also have "\<dots> \<le> sint (Timestamp (foldl pickNewer (pickNewer b e) es))"
    by (rule Cons.IH)
  finally show ?case by simp
qed

lemma foldl_pickNewer_first_max:
  "\<exists>e\<in>set es. sint (Timestamp b) < sint (Timestamp e) \<Longrightarrow>
   \<exists>ys zs. es = ys @ foldl pickNewer b es # zs \<and>
     (\<forall>e\<in>set ys. sint (Timestamp e) < sint (Timestamp (foldl pickNewer b es))) \<and>
     (\<forall>e\<in>set zs. sint (Timestamp e) \<le> sint (Timestamp (foldl pickNewer b es))) \<and>
     sint (Timestamp b) < sint (Timestamp (foldl pickNewer b es))"
proof (induction es arbitrary: b)
  case Nil
  then show ?case by simp
next
  case (Cons x es)
  show ?case
  proof (cases "\<exists>e\<in>set es. sint (Timestamp (pickNewer b x)) < sint (Timestamp e)")
    case True
    from Cons.IH [OF True] obtain ys zs where
      es: "es = ys @ foldl pickNewer (pickNewer b x) es # zs"
      and ys: "\<forall>e\<in>set ys. sint (Timestamp e) < sint (Timestamp (foldl pickNewer (pickNewer b x) es))"
      and zs: "\<forall>e\<in>set zs. sint (Timestamp e) \<le> sint (Timestamp (foldl pickNewer (pickNewer b x) es))"
      and gt: "sint (Timestamp (pickNewer b x)) < sint (Timestamp (foldl pickNewer (pickNewer b x) es))"
      by blast
    have bx: "sint (Timestamp x) \<le> sint (Timestamp (pickNewer b x))"
      "sint (Timestamp b) \<le> sint (Timestamp (pickNewer b x))"
      by (simp_all add: pickNewer_def)
    have "x # es = (x # ys) @ foldl pickNewer b (x # es) # zs"
      using es by simp
    moreover have "\<forall>e\<in>set (x # ys). sint (Timestamp e) < sint (Timestamp (foldl pickNewer b (x # es)))"
      using ys gt bx by auto
    moreover have "\<forall>e\<in>set zs. sint (Timestamp e) \<le> sint (Timestamp (foldl pickNewer b (x # es)))"
      using zs by simp
    moreover have "sint (Timestamp b) < sint (Timestamp (foldl pickNewer b (x # es)))"
      using gt bx by simp
    ultimately show ?thesis by blast
  next
    case False
    then have le: "\<forall>e\<in>set es. sint (Timestamp e) \<le> sint (Timestamp (pickNewer b x))"
      by auto
    then have keep: "foldl pickNewer (pickNewer b x) es = pickNewer b x"
      by (rule foldl_pickNewer_keep)
    from Cons.prems False have xb: "sint (Timestamp b) < sint (Timestamp x)"
      by (auto simp: pickNewer_def split: if_splits)
    then have px: "pickNewer b x = x" by (simp add: pickNewer_def)
    have "x # es = [] @ foldl pickNewer b (x # es) # es"
      using keep px by simp
    moreover have "\<forall>e\<in>set es. sint (Timestamp e) \<le> sint (Timestamp (foldl pickNewer b (x # es)))"
      using le keep by simp
    moreover have "sint (Timestamp b) < sint (Timestamp (foldl pickNewer b (x # es)))"
      using keep px xb by simp
    ultimately show ?thesis by (metis empty_iff list.set(1))
  qed
qed

lemma getHandler_quorum:
  assumes "Get q ''key'' \<noteq> []" and "R g > 1"
  shows "getHandler wd q g =
     (if filter snd (readArrivals wd q g) = [] then httpNotFound
      else Response 200 (JsonEntry
             (foldl pickNewer zeroEntry (firstSuccesses (R g) (readArrivals wd q g)))))"
proof -
  have c: "collect (R g) (readArrivals wd q g) 0 zeroEntry =
     (int (length (firstSuccesses (R g) (readArrivals wd q g))),
      foldl pickNewer zeroEntry (firstSuccesses (R g) (readArrivals wd q g)))"
    using assms(2) collect_eq [of 0 "R g" "readArrivals wd q g" zeroEntry]
    by (simp add: firstSuccesses_def)
  have "firstSuccesses (R g) (readArrivals wd q g) = [] \<longleftrightarrow> filter snd (readArrivals wd q g) = []"
    using assms(2) by (auto simp: firstSuccesses_def)
  then have l: "int (length (firstSuccesses (R g) (readArrivals wd q g))) < 1
      \<longleftrightarrow> filter snd (readArrivals wd q g) = []"
    by auto
  show ?thesis
    using assms c l
    by (simp add: getHandler_def Let_def readArrivals_def [symmetric] del: length_0_conv)
qed

lemmas read_eval =
  readArrivals_def firstSuccesses_def localResult_def peerResult_def replicaURL_def
  readWorld_def eval_simps

text \<open>
  For a read with a non-empty key and \<^verbatim>\<open>R > 1\<close>: when no successful result arrives the
  answer is \<^verbatim>\<open>404\<close>; otherwise it is \<^verbatim>\<open>200\<close> with an entry, and when one of the first
  \<^verbatim>\<open>R\<close> successful results has a timestamp above 0, that entry is the first of them with
  the greatest timestamp: every earlier one is strictly older, every later one is not
  newer. Results after the first \<^verbatim>\<open>R\<close> successful ones play no part.
\<close>

theorem read_first_successes:
  assumes "Get q ''key'' \<noteq> []" and "R g > 1"
  shows
   "(filter snd (readArrivals wd q g) = [] \<longrightarrow> getHandler wd q g = httpNotFound) \<and>
    (filter snd (readArrivals wd q g) \<noteq> [] \<longrightarrow>
       (\<exists>b. getHandler wd q g = Response 200 (JsonEntry b) \<and>
          ((\<exists>e\<in>set (firstSuccesses (R g) (readArrivals wd q g)). 0 < sint (Timestamp e)) \<longrightarrow>
             (\<exists>ys zs. firstSuccesses (R g) (readArrivals wd q g) = ys @ b # zs \<and>
                (\<forall>e\<in>set ys. sint (Timestamp e) < sint (Timestamp b)) \<and>
                (\<forall>e\<in>set zs. sint (Timestamp e) \<le> sint (Timestamp b))))))"
proof -
  let ?T = "firstSuccesses (R g) (readArrivals wd q g)"
  have "\<exists>e\<in>set ?T. 0 < sint (Timestamp e) \<Longrightarrow>
     \<exists>ys zs. ?T = ys @ foldl pickNewer zeroEntry ?T # zs \<and>
       (\<forall>e\<in>set ys. sint (Timestamp e) < sint (Timestamp (foldl pickNewer zeroEntry ?T))) \<and>
       (\<forall>e\<in>set zs. sint (Timestamp e) \<le> sint (Timestamp (foldl pickNewer zeroEntry ?T)))"
  proof -
    assume "\<exists>e\<in>set ?T. 0 < sint (Timestamp e)"
    then have "\<exists>e\<in>set ?T. sint (Timestamp zeroEntry) < sint (Timestamp e)"
      by (simp add: zeroEntry_def)
    from foldl_pickNewer_first_max [OF this] show ?thesis by blast
  qed
  then show ?thesis
    by (simp add: getHandler_quorum [OF assms])
qed

theorem read_first_successes_witness:
  "Get (query [(''key'', ''k'')]) ''key'' \<noteq> [] \<and> R (leader3\<lparr>R := 2\<rparr>) > 1 \<and>
   firstSuccesses 2 (readArrivals readWorld (query [(''key'', ''k'')])
      (leader3\<lparr>R := 2, svc := [''k'' \<mapsto> \<lparr>Value = ''w'', Timestamp = 3\<rparr>]\<rparr>)) =
     [\<lparr>Value = ''w'', Timestamp = 3\<rparr>, \<lparr>Value = ''x'', Timestamp = 7\<rparr>] \<and>
   getHandler readWorld (query [(''key'', ''k'')])
      (leader3\<lparr>R := 2, svc := [''k'' \<mapsto> \<lparr>Value = ''w'', Timestamp = 3\<rparr>]\<rparr>) =
     Response 200 (JsonEntry \<lparr>Value = ''x'', Timestamp = 7\<rparr>)"
  using read_first_successes [of "query [(''key'', ''k'')]"
      "leader3\<lparr>R := 2, svc := [''k'' \<mapsto> \<lparr>Value = ''w'', Timestamp = 3\<rparr>]\<rparr>" readWorld]
  by (simp add: read_eval getHandler_def)

text \<open>
  C5. The read does not return the entry of greatest timestamp among the first \<^verbatim>\<open>R\<close>
  successful results when none of them has a timestamp above 0. The local store holds
  the entry \<^verbatim>\<open>a\<close> with timestamp \<open>-5\<close>, the peer answers \<^verbatim>\<open>x\<close> with timestamp \<open>-3\<close>
  and \<^verbatim>\<open>R = 2\<close>: both results are collected, and the read answers the zero entry, which
  neither of them is, instead of the peer's entry. With \<^verbatim>\<open>R = 1\<close> the same node answers
  the entry it stores.
\<close>

theorem read_negative_returns_zero_entry:
  "firstSuccesses 2 (readArrivals
      (readWorld\<lparr>HttpGet := \<lambda>i url. GetResp 200 \<lparr>Value = ''x'', Timestamp = - 3\<rparr>\<rparr>)
      (query [(''key'', ''k'')])
      (node0\<lparr>R := 2, peers := [''b:8000''],
             svc := [''k'' \<mapsto> \<lparr>Value = ''a'', Timestamp = - 5\<rparr>]\<rparr>)) =
     [\<lparr>Value = ''a'', Timestamp = - 5\<rparr>, \<lparr>Value = ''x'', Timestamp = - 3\<rparr>] \<and>
   getHandler
      (readWorld\<lparr>HttpGet := \<lambda>i url. GetResp 200 \<lparr>Value = ''x'', Timestamp = - 3\<rparr>\<rparr>)
      (query [(''key'', ''k'')])
      (node0\<lparr>R := 2, peers := [''b:8000''],
             svc := [''k'' \<mapsto> \<lparr>Value = ''a'', Timestamp = - 5\<rparr>]\<rparr>) =
     Response 200 (JsonEntry \<lparr>Value = [], Timestamp = 0\<rparr>) \<and>
   getHandler
      (readWorld\<lparr>HttpGet := \<lambda>i url. GetResp 200 \<lparr>Value = ''x'', Timestamp = - 3\<rparr>\<rparr>)
      (query [(''key'', ''k'')])
      (node0\<lparr>R := 1, peers := [''b:8000''],
             svc := [''k'' \<mapsto> \<lparr>Value = ''a'', Timestamp = - 5\<rparr>]\<rparr>) =
     Response 200 (JsonEntry \<lparr>Value = ''a'', Timestamp = - 5\<rparr>)"
  by (simp add: read_eval getHandler_def)

text \<open>
  C10. For a read with a non-empty key and \<^verbatim>\<open>R > 1\<close> in which a successful result
  arrives and none of the first \<^verbatim>\<open>R\<close> successful results has a timestamp above 0, the
  answer is \<^verbatim>\<open>200\<close> with the zero entry: the empty value and timestamp 0.
\<close>

theorem read_zero_entry:
  assumes "Get q ''key'' \<noteq> []" and "R g > 1"
    and "filter snd (readArrivals wd q g) \<noteq> []"
    and "\<forall>e\<in>set (firstSuccesses (R g) (readArrivals wd q g)). sint (Timestamp e) \<le> 0"
  shows "getHandler wd q g = Response 200 (JsonEntry \<lparr>Value = [], Timestamp = 0\<rparr>)"
proof -
  have "foldl pickNewer zeroEntry (firstSuccesses (R g) (readArrivals wd q g)) = zeroEntry"
    using assms(4) by (intro foldl_pickNewer_keep) (simp add: zeroEntry_def)
  then show ?thesis
    using assms(3) by (simp add: getHandler_quorum [OF assms(1,2)] zeroEntry_def)
qed

theorem read_zero_entry_witness:
  "getHandler readWorld (query [(''key'', ''k'')])
      (node0\<lparr>R := 2, svc := [''k'' \<mapsto> \<lparr>Value = ''a'', Timestamp = - 5\<rparr>]\<rparr>) =
     Response 200 (JsonEntry \<lparr>Value = [], Timestamp = 0\<rparr>)"
  by (rule read_zero_entry) (simp_all add: read_eval)

section \<open>The local write of a coordinator\<close>

text \<open>
  C1. The local write of \<^verbatim>\<open>putHandler\<close> and of \<^verbatim>\<open>setHandler\<close> is the plain assignment
  \<^verbatim>\<open>svc.data[key] = Entry{Value: val, Timestamp: ts}\<close>: no timestamp is compared. A
  node of a leaderless cluster of three accepts a replicated entry with timestamp 100 and
  then coordinates a client write while its own clock reads 50: the write is answered
  \<^verbatim>\<open>201\<close> and the stored entry has timestamp 50, below the timestamp 100 applied
  before. The leader of \<^verbatim>\<open>putHandler\<close> does the same. The replicate request with the
  same key and timestamp 50 leaves the entry with timestamp 100 in place.
\<close>

theorem local_write_overwrites_newer:
  "snd (replicateHandler (query [(''key'', ''k''), (''value'', ''a''), (''timestamp'', ''100'')])
      (leader3\<lparr>isLeader := False\<rparr>)) =
     leader3\<lparr>isLeader := False, svc := [''k'' \<mapsto> \<lparr>Value = ''a'', Timestamp = 100\<rparr>]\<rparr> \<and>
   response (setHandler (allUp 50) (query [(''key'', ''k''), (''value'', ''b'')])
      (leader3\<lparr>isLeader := False, svc := [''k'' \<mapsto> \<lparr>Value = ''a'', Timestamp = 100\<rparr>]\<rparr>)) =
     Response 201 NoBody \<and>
   svc (after (setHandler (allUp 50) (query [(''key'', ''k''), (''value'', ''b'')])
      (leader3\<lparr>isLeader := False, svc := [''k'' \<mapsto> \<lparr>Value = ''a'', Timestamp = 100\<rparr>]\<rparr>))) ''k'' =
     Some \<lparr>Value = ''b'', Timestamp = 50\<rparr> \<and>
   svc (after (putHandler (allUp 50) (query [(''key'', ''k''), (''value'', ''b'')])
      (leader3\<lparr>svc := [''k'' \<mapsto> \<lparr>Value = ''a'', Timestamp = 100\<rparr>]\<rparr>))) ''k'' =
     Some \<lparr>Value = ''b'', Timestamp = 50\<rparr> \<and>
   svc (snd (replicateHandler (query [(''key'', ''k''), (''value'', ''b''), (''timestamp'', ''50'')])
      (leader3\<lparr>isLeader := False, svc := [''k'' \<mapsto> \<lparr>Value = ''a'', Timestamp = 100\<rparr>]\<rparr>))) ''k'' =
     Some \<lparr>Value = ''a'', Timestamp = 100\<rparr>"
  by (simp add: write_eval replicateHandler_def applyIfNewer_def)

end
